theory Spec2Isabelle
  imports Complex_Main "HOL-Library.Multiset"
begin

section \<open>RTL-SDR RF watcher: band scan, peak detection, spoken alerts\<close>

text \<open>
  A shallow embedding of \<^verbatim>\<open>rf_watch_rtlsdr.py\<close>.

  Conventions of the model:
  \<^item> Python \<^verbatim>\<open>float\<close> values are modelled by exact reals. Rounding, infinities and
    NaN are outside the model.
  \<^item> Text is a \<open>string\<close> (a list of 8-bit characters); the whitespace and line
    boundary sets of Python are restricted to code points below 256.
  \<^item> Module-level configuration constants are the fields of a record \<open>config\<close>;
    \<open>default_config\<close> holds the values written in the source.
  \<^item> The module-level variable \<^verbatim>\<open>last_tts_time\<close> is the field of a record
    \<open>alert_state\<close> that is passed in and returned.
  \<^item> \<^verbatim>\<open>time.time()\<close>, the result of running \<^verbatim>\<open>rtl_power\<close> and whether
    \<^verbatim>\<open>espeak\<close> can be started are inputs of the functions that use them.
  \<^item> \<^verbatim>\<open>print\<close> and \<^verbatim>\<open>subprocess.Popen\<close> in \<^verbatim>\<open>speak\<close> are returned as a list
    of events; the diagnostic prints of the scan and of the detector are left out.
\<close>

subsection \<open>Configuration and errors\<close>

record config =
  THRESHOLD_ABOVE_MEDIAN_DB :: real
  ENABLE_TTS_ALERTS :: bool
  TTS_COOLDOWN_SEC :: real

definition default_config :: config where
  "default_config =
     \<lparr>THRESHOLD_ABOVE_MEDIAN_DB = 3.5, ENABLE_TTS_ALERTS = True, TTS_COOLDOWN_SEC = 5\<rparr>"

datatype error = StatisticsError | ValueError | FileNotFoundError

subsection \<open>String operations of Python used by the parser\<close>

definition is_space :: "char \<Rightarrow> bool" where
  \<comment> \<open>\<^verbatim>\<open>str.isspace\<close> on one character, for code points below 256\<close>
  "is_space c =
     (let n = (of_char c :: nat)
      in (9 \<le> n \<and> n \<le> 13) \<or> (28 \<le> n \<and> n \<le> 32) \<or> n = 133 \<or> n = 160)"

definition is_linebreak :: "char \<Rightarrow> bool" where
  \<comment> \<open>the line boundaries of \<^verbatim>\<open>str.splitlines\<close>, for code points below 256\<close>
  "is_linebreak c =
     (let n = (of_char c :: nat)
      in (10 \<le> n \<and> n \<le> 13) \<or> (28 \<le> n \<and> n \<le> 30) \<or> n = 133)"

definition strip :: "string \<Rightarrow> string" where
  "strip s = rev (dropWhile is_space (rev (dropWhile is_space s)))"

definition after_break :: "char \<Rightarrow> string \<Rightarrow> string" where
  \<comment> \<open>a carriage return followed by a line feed is one boundary\<close>
  "after_break c cs =
     (case cs of
        [] \<Rightarrow> []
      | d # ds \<Rightarrow> if of_char c = (13::nat) \<and> of_char d = (10::nat) then ds else cs)"

function splitlines_from :: "string \<Rightarrow> string \<Rightarrow> string list" where
  "splitlines_from cur [] = (if cur = [] then [] else [rev cur])"
| "splitlines_from cur (c # cs) =
     (if is_linebreak c then rev cur # splitlines_from [] (after_break c cs)
      else splitlines_from (c # cur) cs)"
  by pat_completeness auto
termination
  by (relation "measure (\<lambda>(cur, s). length s)")
     (auto simp: after_break_def less_Suc_eq_le split: list.splits)

definition splitlines :: "string \<Rightarrow> string list" where
  "splitlines s = splitlines_from [] s"

fun split_on :: "char \<Rightarrow> string \<Rightarrow> string list" where
  \<comment> \<open>\<^verbatim>\<open>s.split(sep)\<close> for a one-character separator\<close>
  "split_on sep [] = [[]]"
| "split_on sep (c # cs) =
     (if c = sep then [] # split_on sep cs
      else (case split_on sep cs of
              [] \<Rightarrow> [[c]]
            | w # ws \<Rightarrow> (c # w) # ws))"

definition startswith_hash :: "string \<Rightarrow> bool" where
  "startswith_hash s = (case s of [] \<Rightarrow> False | c # _ \<Rightarrow> c = CHR ''#'')"

subsection \<open>The band scan\<close>

text \<open>
  The loop over the lines of the tool's output (lines 137 to 146): a line is stripped;
  blank lines, comment lines and lines without a comma are skipped; the others are split
  at the commas and kept when they have at least 8 fields.
\<close>

fun collect_data_parts :: "string list \<Rightarrow> string list list" where
  "collect_data_parts [] = []"
| "collect_data_parts (l # ls) =
     (let line = strip l
      in if line = [] \<or> startswith_hash line then collect_data_parts ls
         else if CHR '','' \<notin> set line then collect_data_parts ls
         else (let parts = split_on (CHR '','') line
               in if 8 \<le> length parts then parts # collect_data_parts ls
                  else collect_data_parts ls))"

text \<open>
  The loop over the power fields (lines 166 to 176). \<open>i\<close> is the counter of
  \<^verbatim>\<open>enumerate\<close>: it advances on every field, also on the skipped ones. \<open>pf\<close> is
  Python's \<^verbatim>\<open>float\<close> on a string, \<open>None\<close> where it raises \<^verbatim>\<open>ValueError\<close>.
\<close>

fun power_loop ::
  "(string \<Rightarrow> real option) \<Rightarrow> real \<Rightarrow> real \<Rightarrow> nat \<Rightarrow> string list \<Rightarrow> real list \<times> real list"
where
  "power_loop pf freq_start bin_hz i [] = ([], [])"
| "power_loop pf freq_start bin_hz i (p # rest) =
     (let p_str = strip p;
          (freqs, powers) = power_loop pf freq_start bin_hz (Suc i) rest
      in if p_str = [] then (freqs, powers)
         else (case pf p_str of
                 None \<Rightarrow> (freqs, powers)
               | Some p_db \<Rightarrow> ((freq_start + real i * bin_hz) # freqs, p_db # powers)))"

definition parse_output :: "(string \<Rightarrow> real option) \<Rightarrow> string \<Rightarrow> real list \<times> real list" where
  \<comment> \<open>lines 134 to 178 of \<^verbatim>\<open>scan_band\<close>\<close>
  "parse_output pf out =
     (let data_parts = collect_data_parts (splitlines out)
      in if data_parts = [] then ([], [])
         else (let parts = last data_parts
               in case pf (parts ! 2) of
                    None \<Rightarrow> ([], [])
                  | Some freq_start \<Rightarrow>
                      (case pf (parts ! 4) of
                         None \<Rightarrow> ([], [])
                       | Some bin_hz \<Rightarrow> power_loop pf freq_start bin_hz 0 (drop 6 parts))))"

definition chosen_parts :: "string \<Rightarrow> string list option" where
  \<comment> \<open>the fields of the last data line (line 153), if there is a data line\<close>
  "chosen_parts out =
     (let data_parts = collect_data_parts (splitlines out)
      in if data_parts = [] then None else Some (last data_parts))"

definition is_retained :: "(string \<Rightarrow> real option) \<Rightarrow> string \<Rightarrow> bool" where
  \<comment> \<open>a power field that the loop keeps: not blank, and accepted by \<^verbatim>\<open>float\<close>\<close>
  "is_retained pf p =
     (let p_str = strip p
      in if p_str = [] then False
         else (case pf p_str of None \<Rightarrow> False | Some p_db \<Rightarrow> True))"

definition retained_positions :: "(string \<Rightarrow> real option) \<Rightarrow> string list \<Rightarrow> nat list" where
  \<comment> \<open>the positions, in the list of all power fields, of the fields that are kept\<close>
  "retained_positions pf ps = filter (\<lambda>i. is_retained pf (ps ! i)) [0..<length ps]"

definition spec_freqs_by_retained_index :: "real \<Rightarrow> real \<Rightarrow> real list \<Rightarrow> bool" where
  \<comment> \<open>the convention as the specification words it: the frequency at position \<open>k\<close> of
      the retained values is \<open>start + k \<times> bin_width\<close>\<close>
  "spec_freqs_by_retained_index start bin_hz freqs =
     (freqs = map (\<lambda>k. start + real k * bin_hz) [0..<length freqs])"

text \<open>
  What running \<^verbatim>\<open>rtl_power\<close> gave: its output, a non-zero exit status
  (\<^verbatim>\<open>CalledProcessError\<close>, caught), or no such program (\<^verbatim>\<open>FileNotFoundError\<close>,
  not caught).
\<close>

datatype run_result = Completed string | Called_process_error string | Tool_missing

definition scan_band ::
  "(string \<Rightarrow> real option) \<Rightarrow> run_result \<Rightarrow> error + (real list \<times> real list)"
where
  "scan_band pf r =
     (case r of
        Called_process_error e \<Rightarrow> Inr ([], [])
      | Tool_missing \<Rightarrow> Inl FileNotFoundError
      | Completed out \<Rightarrow> Inr (parse_output pf out))"

subsection \<open>Python's \<^verbatim>\<open>float\<close> on decimal literals\<close>

text \<open>
  Python's \<^verbatim>\<open>float\<close> is not code of this repository. The theorems about the parser
  hold for every function \<open>pf\<close> in its place. \<open>py_float\<close> is a concrete instance for
  evaluating the parser on given lines; it follows the grammar of the Python reference
  for finite literals (surrounding whitespace, a sign, digits with single underscores
  between them, a fraction, an exponent) and returns the exact decimal value. The
  literals \<^verbatim>\<open>inf\<close>, \<^verbatim>\<open>infinity\<close> and \<^verbatim>\<open>nan\<close> have no real value and are not
  covered by it.
\<close>

definition is_digit :: "char \<Rightarrow> bool" where
  "is_digit c = (let n = (of_char c :: nat) in 48 \<le> n \<and> n \<le> 57)"

definition digit_val :: "char \<Rightarrow> int" where
  "digit_val c = of_char c - 48"

fun digits_from :: "int \<Rightarrow> nat \<Rightarrow> string \<Rightarrow> int \<times> nat \<times> string" where
  \<comment> \<open>value read so far, number of digits read so far, and what follows the digits\<close>
  "digits_from v n [] = (v, n, [])"
| "digits_from v n (c # cs) =
     (if is_digit c then digits_from (10 * v + digit_val c) (Suc n) cs
      else if c = CHR ''_'' \<and> 0 < n \<and> (case cs of [] \<Rightarrow> False | d # _ \<Rightarrow> is_digit d)
        then digits_from v n cs
      else (v, n, c # cs))"

definition sign_of :: "string \<Rightarrow> bool \<times> string" where
  "sign_of s =
     (case s of
        [] \<Rightarrow> (False, [])
      | c # r \<Rightarrow> if c = CHR ''-'' then (True, r) else if c = CHR ''+'' then (False, r)
                 else (False, s))"

definition number_of :: "string \<Rightarrow> (real \<times> string) option" where
  "number_of s =
     (let (v, n, rest) = digits_from 0 0 s
      in case rest of
           [] \<Rightarrow> if n = 0 then None else Some (real_of_int v, [])
         | c # r \<Rightarrow>
             if c = CHR ''.''
             then (let (fv, fn, r2) = digits_from 0 0 r
                   in if n = 0 \<and> fn = 0 then None
                      else Some (real_of_int v + real_of_int fv / 10 ^ fn, r2))
             else if n = 0 then None else Some (real_of_int v, rest))"

definition exponent_of :: "string \<Rightarrow> int option" where
  "exponent_of s =
     (case s of
        [] \<Rightarrow> Some 0
      | c # r \<Rightarrow>
          if c = CHR ''e'' \<or> c = CHR ''E''
          then (let (neg, r1) = sign_of r; (ev, en, r2) = digits_from 0 0 r1
                in if en = 0 then None
                   else if r2 = [] then Some (if neg then - ev else ev)
                   else None)
          else None)"

definition scale10 :: "real \<Rightarrow> int \<Rightarrow> real" where
  "scale10 x e = (if 0 \<le> e then x * 10 ^ nat e else x / 10 ^ nat (- e))"

definition py_float :: "string \<Rightarrow> real option" where
  "py_float s =
     (let (neg, r) = sign_of (strip s)
      in case number_of r of
           None \<Rightarrow> None
         | Some (x, r1) \<Rightarrow>
             (case exponent_of r1 of
                None \<Rightarrow> None
              | Some e \<Rightarrow> Some (if neg then - scale10 x e else scale10 x e)))"

subsection \<open>Peak detection\<close>

definition median :: "real list \<Rightarrow> error + real" where
  \<comment> \<open>\<^verbatim>\<open>statistics.median\<close>: the middle of the sorted data, the mean of the two middle
      values when their number is even; it raises on no data\<close>
  "median data =
     (let s = sort data; n = length s
      in if n = 0 then Inl StatisticsError
         else if n mod 2 = 1 then Inr (s ! (n div 2))
         else Inr ((s ! (n div 2 - 1) + s ! (n div 2)) / 2))"

definition max_py :: "real list \<Rightarrow> error + real" where
  \<comment> \<open>\<^verbatim>\<open>max\<close> of a list; it raises on an empty one\<close>
  "max_py xs = (case xs of [] \<Rightarrow> Inl ValueError | x # r \<Rightarrow> Inr (foldl max x r))"

definition detect_peaks :: "config \<Rightarrow> real list \<Rightarrow> real list \<Rightarrow> error + (real \<times> real) list" where
  "detect_peaks cfg freqs powers =
     (if powers = [] then Inr []
      else (case median powers of
              Inl e \<Rightarrow> Inl e
            | Inr median_noise \<Rightarrow>
                (case max_py powers of
                   Inl e \<Rightarrow> Inl e
                 | Inr max_p \<Rightarrow>
                     (let cutoff = median_noise + THRESHOLD_ABOVE_MEDIAN_DB cfg
                      in Inr (filter (\<lambda>(f, p). cutoff \<le> p) (zip freqs powers))))))"

subsection \<open>Spoken alerts\<close>

record alert_state =
  last_tts_time :: real

definition initial_state :: alert_state where
  "initial_state = \<lparr>last_tts_time = 0\<rparr>"

datatype event = Print string | Popen "string list"

text \<open>
  \<open>now\<close> is the value of \<^verbatim>\<open>time.time()\<close>; \<open>espeak_found\<close> tells whether starting
  \<^verbatim>\<open>espeak\<close> succeeds or raises \<^verbatim>\<open>FileNotFoundError\<close>. \<open>Popen\<close> in the events is a
  process that was started.
\<close>

definition speak :: "config \<Rightarrow> real \<Rightarrow> bool \<Rightarrow> string \<Rightarrow> alert_state \<Rightarrow> event list \<times> alert_state" where
  "speak cfg now espeak_found message st =
     (if \<not> ENABLE_TTS_ALERTS cfg then ([], st)
      else if now - last_tts_time st < TTS_COOLDOWN_SEC cfg then ([], st)
      else (Print (''[TTS] '' @ message) #
              (if espeak_found
               then [Popen [''espeak'', ''-s'', ''170'', ''-a'', ''200'', message]]
               else [Print ''[!] espeak not found. Install with: sudo apt install espeak'']),
            st\<lparr>last_tts_time := now\<rparr>))"



subsection \<open>One band of the watch loop\<close>

definition sort_hits :: "(real \<times> real) list \<Rightarrow> (real \<times> real) list" where
  \<comment> \<open>\<^verbatim>\<open>hits.sort(key=lambda x: x[1], reverse=True)\<close>: descending by power, hits of
      equal power in their former order\<close>
  "sort_hits hits = sort_key (\<lambda>x. - snd x) hits"

text \<open>
  The body of the loop over the bands in \<^verbatim>\<open>main\<close> (lines 264 to 281): the hits as
  reported (none when the loop continues at line 269), the events of the alert and the
  alert state. \<open>fmt\<close> builds the message from the band's name and the strongest
  frequency.
\<close>

definition report_band ::
  "config \<Rightarrow> (string \<Rightarrow> real \<Rightarrow> string) \<Rightarrow> real \<Rightarrow> bool \<Rightarrow> string \<Rightarrow>
   real list \<Rightarrow> real list \<Rightarrow> alert_state \<Rightarrow> error + ((real \<times> real) list \<times> event list \<times> alert_state)"
where
  \<comment> \<open>lines 265 to 281\<close>
  "report_band cfg fmt now espeak_found band_name freqs powers st =
     (case detect_peaks cfg freqs powers of
        Inl e \<Rightarrow> Inl e
      | Inr hits \<Rightarrow>
          if hits = [] then Inr ([], [], st)
          else (let hits' = sort_hits hits;
                    (strongest_freq, strongest_power) = hd hits';
                    (events, st') =
                       speak cfg now espeak_found (fmt band_name strongest_freq) st
                in Inr (hits', events, st')))"

definition process_band ::
  "config \<Rightarrow> (string \<Rightarrow> real option) \<Rightarrow> (string \<Rightarrow> real \<Rightarrow> string) \<Rightarrow> real \<Rightarrow> bool \<Rightarrow>
   string \<Rightarrow> run_result \<Rightarrow> alert_state \<Rightarrow> error + ((real \<times> real) list \<times> event list \<times> alert_state)"
where
  \<comment> \<open>lines 264 to 281\<close>
  "process_band cfg pf fmt now espeak_found band_name r st =
     (case scan_band pf r of
        Inl e \<Rightarrow> Inl e
      | Inr (freqs, powers) \<Rightarrow>
          report_band cfg fmt now espeak_found band_name freqs powers st)"

section \<open>Properties\<close>

subsection \<open>Auxiliary facts about the parser\<close>

lemma power_loop_Cons:
  "power_loop pf fs bw i (p # rest) =
     (if is_retained pf p
      then ((fs + real i * bw) # fst (power_loop pf fs bw (Suc i) rest),
            the (pf (strip p)) # snd (power_loop pf fs bw (Suc i) rest))
      else power_loop pf fs bw (Suc i) rest)"
  by (simp add: is_retained_def Let_def case_prod_beta split: option.splits)

lemma power_loop_length:
  "length (fst (power_loop pf fs bw i ps)) = length (snd (power_loop pf fs bw i ps))"
  by (induction ps arbitrary: i) (simp_all add: power_loop_Cons del: power_loop.simps(2))

lemma retained_positions_Cons:
  "retained_positions pf (p # rest) =
     (if is_retained pf p then [0] else []) @ map Suc (retained_positions pf rest)"
proof -
  have "[0..<length (p # rest)] = 0 # map Suc [0..<length rest]"
    by (simp add: upt_conv_Cons map_Suc_upt del: upt_Suc)
  then show ?thesis
    by (simp add: retained_positions_def filter_map comp_def del: upt_Suc)
qed

lemma power_loop_positions:
  "power_loop pf fs bw i ps =
     (map (\<lambda>k. fs + real (i + k) * bw) (retained_positions pf ps),
      map (\<lambda>k. the (pf (strip (ps ! k)))) (retained_positions pf ps))"
proof (induction ps arbitrary: i)
  case Nil
  show ?case by (simp add: retained_positions_def)
next
  case (Cons p rest)
  show ?case
    by (simp add: Cons.IH [of "Suc i"] retained_positions_Cons power_loop_Cons comp_def
             del: power_loop.simps(2))
qed


lemma collect_data_parts_none:
  "\<forall>l \<in> set ls. strip l = [] \<or> startswith_hash (strip l) \<or> CHR '','' \<notin> set (strip l)
   \<Longrightarrow> collect_data_parts ls = []"
  by (induction ls) (auto simp: Let_def)

lemma parse_output_chosen:
  "parse_output pf out =
     (case chosen_parts out of
        None \<Rightarrow> ([], [])
      | Some parts \<Rightarrow>
          (case pf (parts ! 2) of
             None \<Rightarrow> ([], [])
           | Some freq_start \<Rightarrow>
               (case pf (parts ! 4) of
                  None \<Rightarrow> ([], [])
                | Some bin_hz \<Rightarrow> power_loop pf freq_start bin_hz 0 (drop 6 parts))))"
  by (simp add: parse_output_def chosen_parts_def Let_def)

lemma parse_output_length:
  "length (fst (parse_output pf out)) = length (snd (parse_output pf out))"
  by (simp add: parse_output_chosen power_loop_length split: option.splits)

lemma chosen_parts_none:
  "\<forall>l \<in> set (splitlines out).
      strip l = [] \<or> startswith_hash (strip l) \<or> CHR '','' \<notin> set (strip l)
   \<Longrightarrow> chosen_parts out = None"
  by (simp add: chosen_parts_def collect_data_parts_none)

lemma detect_peaks_empty: "detect_peaks cfg [] [] = Inr []"
  by (simp add: detect_peaks_def)

subsection \<open>Auxiliary facts about the detector and the alerts\<close>

lemma sort_nonempty: "powers \<noteq> [] \<Longrightarrow> sort powers \<noteq> []"
  by (metis length_sort length_0_conv)

lemma median_nonempty:
  assumes "powers \<noteq> []"
  shows "\<exists>m. median powers = Inr m"
proof (cases "length (sort powers) mod 2 = 1")
  case True
  with sort_nonempty [OF assms] have "median powers = Inr (sort powers ! (length (sort powers) div 2))"
    by (simp add: median_def Let_def)
  then show ?thesis by (rule exI)
next
  case False
  with sort_nonempty [OF assms] have "median powers =
      Inr ((sort powers ! (length (sort powers) div 2 - 1) +
            sort powers ! (length (sort powers) div 2)) / 2)"
    by (simp add: median_def Let_def)
  then show ?thesis by (rule exI)
qed

lemma length_filter_mono:
  "(\<And>x. x \<in> set xs \<Longrightarrow> P x \<Longrightarrow> Q x) \<Longrightarrow> length (filter P xs) \<le> length (filter Q xs)"
  by (induction xs) auto

lemma length_filter_sort: "length (filter P (sort xs)) = length (filter P xs)"
proof -
  have "mset (filter P (sort xs)) = mset (filter P xs)" by simp
  then show ?thesis by (metis size_mset)
qed

lemma sorted_count_le:
  fixes s :: "real list"
  assumes "sorted s" and "j < length s"
  shows "Suc j \<le> length (filter (\<lambda>p. p \<le> s ! j) s)"
proof -
  have all: "\<forall>x \<in> set (take (Suc j) s). x \<le> s ! j"
  proof
    fix x assume "x \<in> set (take (Suc j) s)"
    then obtain i where "i < Suc j" and "i < length s" and "x = s ! i"
      by (auto simp: in_set_conv_nth)
    with assms show "x \<le> s ! j" by (simp add: sorted_nth_mono)
  qed
  have "filter (\<lambda>p. p \<le> s ! j) s =
          filter (\<lambda>p. p \<le> s ! j) (take (Suc j) s) @ filter (\<lambda>p. p \<le> s ! j) (drop (Suc j) s)"
    by (metis append_take_drop_id filter_append)
  also have "filter (\<lambda>p. p \<le> s ! j) (take (Suc j) s) = take (Suc j) s"
    using all by simp
  finally have "length (take (Suc j) s) \<le> length (filter (\<lambda>p. p \<le> s ! j) s)"
    by simp
  with assms(2) show ?thesis by simp
qed

lemma sorted_count_ge:
  fixes s :: "real list"
  assumes "sorted s" and "j < length s"
  shows "length s - j \<le> length (filter (\<lambda>p. s ! j \<le> p) s)"
proof -
  have all: "\<forall>x \<in> set (drop j s). s ! j \<le> x"
  proof
    fix x assume "x \<in> set (drop j s)"
    then obtain i where "i < length s - j" and "x = s ! (j + i)"
      by (auto simp: in_set_conv_nth)
    with assms show "s ! j \<le> x" by (simp add: sorted_nth_mono)
  qed
  have "filter (\<lambda>p. s ! j \<le> p) s =
          filter (\<lambda>p. s ! j \<le> p) (take j s) @ filter (\<lambda>p. s ! j \<le> p) (drop j s)"
    by (metis append_take_drop_id filter_append)
  also have "filter (\<lambda>p. s ! j \<le> p) (drop j s) = drop j s"
    using all by simp
  finally have "length (drop j s) \<le> length (filter (\<lambda>p. s ! j \<le> p) s)"
    by simp
  then show ?thesis by simp
qed

lemma median_is_middle:
  assumes "powers \<noteq> []" and "median powers = Inr m"
  shows "length powers \<le> 2 * length (filter (\<lambda>p. p \<le> m) powers) \<and>
         length powers \<le> 2 * length (filter (\<lambda>p. m \<le> p) powers)"
proof -
  let ?s = "sort powers"
  let ?n = "length ?s"
  have srt: "sorted ?s" by simp
  have n: "?n = length powers" by simp
  have pos: "0 < ?n" using assms(1) by simp
  have ne: "?s \<noteq> []" using assms(1) by (metis length_sort length_0_conv)
  show ?thesis
  proof (cases "?n mod 2 = 1")
    case True
    with ne assms(2) have m: "m = ?s ! (?n div 2)"
      by (simp add: median_def Let_def)
    have j: "?n div 2 < ?n" using pos by simp
    from sorted_count_le [OF srt j] have "Suc (?n div 2) \<le> length (filter (\<lambda>p. p \<le> m) ?s)"
      by (simp add: m)
    moreover from sorted_count_ge [OF srt j] have "?n - ?n div 2 \<le> length (filter (\<lambda>p. m \<le> p) ?s)"
      by (simp add: m)
    ultimately have "?n \<le> 2 * length (filter (\<lambda>p. p \<le> m) ?s) \<and>
                     ?n \<le> 2 * length (filter (\<lambda>p. m \<le> p) ?s)"
      by linarith
    then show ?thesis by (simp add: length_filter_sort)
  next
    case False
    then have even: "?n mod 2 = 0" by simp
    let ?k = "?n div 2"
    from False ne assms(2) have m: "m = (?s ! (?k - 1) + ?s ! ?k) / 2"
      by (simp add: median_def Let_def)
    have k: "0 < ?k" "?k < ?n" "2 * ?k = ?n" using pos even by presburger+
    have lo: "?s ! (?k - 1) \<le> ?s ! ?k"
      using srt k by (simp add: sorted_nth_mono)
    have a: "?s ! (?k - 1) \<le> m" and b: "m \<le> ?s ! ?k"
      using lo by (simp_all add: m)
    have j1: "?k - 1 < ?n" using k by simp
    from sorted_count_le [OF srt j1] have "?k \<le> length (filter (\<lambda>p. p \<le> ?s ! (?k - 1)) ?s)"
      using k by simp
    also have "\<dots> \<le> length (filter (\<lambda>p. p \<le> m) ?s)"
      using a by (intro length_filter_mono) simp
    finally have c1: "?k \<le> length (filter (\<lambda>p. p \<le> m) ?s)" .
    from sorted_count_ge [OF srt k(2)] have "?n - ?k \<le> length (filter (\<lambda>p. ?s ! ?k \<le> p) ?s)" .
    also have "\<dots> \<le> length (filter (\<lambda>p. m \<le> p) ?s)"
      using b by (intro length_filter_mono) simp
    finally have c2: "?n - ?k \<le> length (filter (\<lambda>p. m \<le> p) ?s)" .
    from c1 c2 k have "?n \<le> 2 * length (filter (\<lambda>p. p \<le> m) ?s) \<and>
                      ?n \<le> 2 * length (filter (\<lambda>p. m \<le> p) ?s)"
      by linarith
    then show ?thesis by (simp add: length_filter_sort)
  qed
qed

lemma max_py_nonempty: "powers \<noteq> [] \<Longrightarrow> \<exists>m. max_py powers = Inr m"
  by (cases powers) (simp_all add: max_py_def)

lemma detect_peaks_nonempty:
  assumes "powers \<noteq> []" and "median powers = Inr m"
  shows "detect_peaks cfg freqs powers =
           Inr (filter (\<lambda>(f, p). m + THRESHOLD_ABOVE_MEDIAN_DB cfg \<le> p) (zip freqs powers))"
proof -
  from assms(1) obtain mx where "max_py powers = Inr mx"
    using max_py_nonempty by blast
  with assms show ?thesis by (simp add: detect_peaks_def)
qed


lemma zip_as_positions:
  "length xs = length ys \<Longrightarrow> zip xs ys = map (\<lambda>i. (xs ! i, ys ! i)) [0..<length ys]"
  by (rule nth_equalityI) simp_all







subsection \<open>The parsed sweep\<close>

text \<open>
  C10. On every output of the tool the band scan returns a list of frequencies and a
  list of powers of the same length, so that pairing them position by position, as the
  peak detector does, loses no frequency and no power. When the tool exits with an error
  both lists are empty; when the tool is missing nothing is returned.
\<close>

theorem scan_band_lists_paired:
  "(\<exists>freqs powers.
      scan_band pf (Completed out) = Inr (freqs, powers) \<and>
      length freqs = length powers \<and>
      map fst (zip freqs powers) = freqs \<and> map snd (zip freqs powers) = powers) \<and>
   scan_band pf (Called_process_error e) = Inr ([], []) \<and>
   scan_band pf Tool_missing = Inl FileNotFoundError"
proof -
  obtain freqs powers where p: "parse_output pf out = (freqs, powers)"
    by (cases "parse_output pf out") auto
  with parse_output_length [of pf out] have "length freqs = length powers"
    by simp
  with p show ?thesis by (simp add: scan_band_def)
qed

theorem scan_band_lists_paired_witness:
  "scan_band py_float (Completed ''d,t,100,200,10,1,-70.0,bad,-50.0'') =
     Inr ([100, 120], [-70, -50]) \<and>
   length [100, 120 :: real] = length [-70, -50 :: real] \<and>
   map fst (zip [100, 120 :: real] [-70, -50 :: real]) = [100, 120] \<and>
   map snd (zip [100, 120 :: real] [-70, -50 :: real]) = [-70, -50]"
proof -
  have e: "scan_band py_float (Completed ''d,t,100,200,10,1,-70.0,bad,-50.0'') =
      Inr ([100, 120], [-70, -50])"
    by code_simp
  from scan_band_lists_paired [of py_float "''d,t,100,200,10,1,-70.0,bad,-50.0''"]
  obtain freqs powers where
    "scan_band py_float (Completed ''d,t,100,200,10,1,-70.0,bad,-50.0'') = Inr (freqs, powers)"
    "length freqs = length powers"
    "map fst (zip freqs powers) = freqs" "map snd (zip freqs powers) = powers"
    by blast
  with e show ?thesis by simp
qed

text \<open>
  C3, as the code has it. The frequency of a retained power value is the start frequency
  plus \<open>i\<close> times the bin width, where \<open>i\<close> is the position of its field among all
  the power fields of the line (field 6 is position 0), the skipped fields counted: a
  skipped field leaves the frequencies of the later values where they were.
\<close>

theorem positions_counted_among_all_fields:
  "chosen_parts out = Some parts \<Longrightarrow> pf (parts ! 2) = Some start \<Longrightarrow>
   pf (parts ! 4) = Some bin_hz \<Longrightarrow>
   scan_band pf (Completed out) =
     Inr (map (\<lambda>i. start + real i * bin_hz) (retained_positions pf (drop 6 parts)),
          map (\<lambda>i. the (pf (strip (drop 6 parts ! i)))) (retained_positions pf (drop 6 parts)))"
  by (simp add: scan_band_def parse_output_chosen power_loop_positions)

theorem positions_counted_among_all_fields_witness:
  "chosen_parts ''d,t,100,200,10,1,-70.0,bad,-50.0'' =
     Some [''d'', ''t'', ''100'', ''200'', ''10'', ''1'', ''-70.0'', ''bad'', ''-50.0''] \<and>
   py_float ''100'' = Some 100 \<and> py_float ''10'' = Some 10 \<and>
   retained_positions py_float [''-70.0'', ''bad'', ''-50.0''] = [0, 2] \<and>
   scan_band py_float (Completed ''d,t,100,200,10,1,-70.0,bad,-50.0'') = Inr ([100, 120], [-70, -50])"
proof -
  let ?parts = "[''d'', ''t'', ''100'', ''200'', ''10'', ''1'', ''-70.0'', ''bad'', ''-50.0'']"
  have c: "chosen_parts ''d,t,100,200,10,1,-70.0,bad,-50.0'' = Some ?parts"
    by code_simp
  have s: "py_float (?parts ! 2) = Some 100" by code_simp
  have b: "py_float (?parts ! 4) = Some 10" by code_simp
  have r: "retained_positions py_float [''-70.0'', ''bad'', ''-50.0''] = [0, 2]" by code_simp
  have p0: "py_float (strip ''-70.0'') = Some (-70)" by code_simp
  have p2: "py_float (strip ''-50.0'') = Some (-50)" by code_simp
  have s': "py_float ''100'' = Some 100" by code_simp
  have b': "py_float ''10'' = Some 10" by code_simp
  from positions_counted_among_all_fields [OF c s b] r p0 p2 c s' b' show ?thesis by simp
qed

text \<open>
  The convention in the words of the specification (position among the retained values)
  fails on a line with a malformed field between two good ones: the value after the
  malformed field is at 120, not at 110.
\<close>

theorem retained_index_counterexample:
  "scan_band py_float (Completed ''d,t,100,200,10,1,-70.0,bad,-50.0'') = Inr ([100, 120], [-70, -50]) \<and>
   \<not> spec_freqs_by_retained_index 100 10 [100, 120]"
  by code_simp

text \<open>
  C7. An output in which every line is blank, a comment or without a comma, and an output
  whose chosen line has a start frequency or a bin width that \<^verbatim>\<open>float\<close> rejects, give
  the empty sweep, as a value and not as an error; the detector gives no detection on the
  empty sweep, as a value too.
\<close>

theorem no_data_gives_empty_sweep:
  "((\<forall>l \<in> set (splitlines out).
        strip l = [] \<or> startswith_hash (strip l) \<or> CHR '','' \<notin> set (strip l))
      \<longrightarrow> scan_band pf (Completed out) = Inr ([], [])) \<and>
   (chosen_parts out = Some parts \<and> (pf (parts ! 2) = None \<or> pf (parts ! 4) = None)
      \<longrightarrow> scan_band pf (Completed out) = Inr ([], [])) \<and>
   detect_peaks cfg [] [] = Inr []"
proof (intro conjI impI)
  assume "\<forall>l \<in> set (splitlines out).
      strip l = [] \<or> startswith_hash (strip l) \<or> CHR '','' \<notin> set (strip l)"
  then have "chosen_parts out = None" by (rule chosen_parts_none)
  then show "scan_band pf (Completed out) = Inr ([], [])"
    by (simp add: scan_band_def parse_output_chosen)
next
  assume "chosen_parts out = Some parts \<and> (pf (parts ! 2) = None \<or> pf (parts ! 4) = None)"
  then show "scan_band pf (Completed out) = Inr ([], [])"
    by (auto simp: scan_band_def parse_output_chosen split: option.splits)
next
  show "detect_peaks cfg [] [] = Inr []" by (rule detect_peaks_empty)
qed

theorem no_data_gives_empty_sweep_witness:
  "scan_band py_float (Completed ''# a,b\<newline>Found 1 device(s):\<newline>'') = Inr ([], []) \<and>
   scan_band py_float (Completed ''d,t,oops,200,10,1,-70.0,-50.0'') = Inr ([], []) \<and>
   scan_band py_float (Completed ''d,t,100,200,,1,-70.0,-50.0'') = Inr ([], []) \<and>
   detect_peaks default_config [] [] = Inr []"
proof -
  let ?p2 = "[''d'', ''t'', ''oops'', ''200'', ''10'', ''1'', ''-70.0'', ''-50.0'']"
  let ?p3 = "[''d'', ''t'', ''100'', ''200'', [], ''1'', ''-70.0'', ''-50.0'']"
  have h1: "\<forall>l \<in> set (splitlines ''# a,b\<newline>Found 1 device(s):\<newline>'').
      strip l = [] \<or> startswith_hash (strip l) \<or> CHR '','' \<notin> set (strip l)"
    by code_simp
  have h2: "chosen_parts ''d,t,oops,200,10,1,-70.0,-50.0'' = Some ?p2 \<and>
      (py_float (?p2 ! 2) = None \<or> py_float (?p2 ! 4) = None)"
    by code_simp
  have h3: "chosen_parts ''d,t,100,200,,1,-70.0,-50.0'' = Some ?p3 \<and>
      (py_float (?p3 ! 2) = None \<or> py_float (?p3 ! 4) = None)"
    by code_simp
  from no_data_gives_empty_sweep [of "''# a,b\<newline>Found 1 device(s):\<newline>''" py_float ?p2 default_config] h1
  have r1: "scan_band py_float (Completed ''# a,b\<newline>Found 1 device(s):\<newline>'') = Inr ([], [])"
    and r4: "detect_peaks default_config [] [] = Inr []"
    by blast+
  from no_data_gives_empty_sweep [of "''d,t,oops,200,10,1,-70.0,-50.0''" py_float ?p2 default_config] h2
  have r2: "scan_band py_float (Completed ''d,t,oops,200,10,1,-70.0,-50.0'') = Inr ([], [])"
    by blast
  from no_data_gives_empty_sweep [of "''d,t,100,200,,1,-70.0,-50.0''" py_float ?p3 default_config] h3
  have r3: "scan_band py_float (Completed ''d,t,100,200,,1,-70.0,-50.0'') = Inr ([], [])"
    by blast
  from r1 r2 r3 r4 show ?thesis by blast
qed




subsection \<open>Peak detection\<close>

text \<open>
  C1. For a sweep with at least one sample (frequencies and powers of the same length),
  the detector returns, in the order of the sweep, exactly the samples whose power is at
  least the median of all the powers plus the margin; a power equal to that cutoff
  qualifies. The median is a middle value: at least half of the powers are at most the
  median and at least half are at least the median.
\<close>

theorem detection_iff_at_or_above_cutoff:
  assumes "powers \<noteq> []" and "length freqs = length powers"
  shows "\<exists>m hits.
           median powers = Inr m \<and>
           length powers \<le> 2 * length (filter (\<lambda>p. p \<le> m) powers) \<and>
           length powers \<le> 2 * length (filter (\<lambda>p. m \<le> p) powers) \<and>
           detect_peaks cfg freqs powers = Inr hits \<and>
           hits = map (\<lambda>i. (freqs ! i, powers ! i))
                    (filter (\<lambda>i. m + THRESHOLD_ABOVE_MEDIAN_DB cfg \<le> powers ! i)
                       [0..<length powers]) \<and>
           (\<forall>i < length powers.
              ((freqs ! i, powers ! i) \<in> set hits) =
              (m + THRESHOLD_ABOVE_MEDIAN_DB cfg \<le> powers ! i))"
proof -
  let ?thr = "THRESHOLD_ABOVE_MEDIAN_DB cfg"
  from assms(1) obtain m where m: "median powers = Inr m"
    using median_nonempty by blast
  let ?hits = "filter (\<lambda>(f, p). m + ?thr \<le> p) (zip freqs powers)"
  have d: "detect_peaks cfg freqs powers = Inr ?hits"
    using assms(1) m by (rule detect_peaks_nonempty)
  have shape: "?hits = map (\<lambda>i. (freqs ! i, powers ! i))
                    (filter (\<lambda>i. m + ?thr \<le> powers ! i) [0..<length powers])"
    by (simp add: zip_as_positions [OF assms(2)] filter_map comp_def)
  have mem: "((freqs ! i, powers ! i) \<in> set ?hits) = (m + ?thr \<le> powers ! i)"
    if "i < length powers" for i
  proof -
    from that assms(2) have "(freqs ! i, powers ! i) \<in> set (zip freqs powers)"
      by (auto simp: set_zip)
    then show ?thesis by simp
  qed
  from m d shape mem median_is_middle [OF assms(1) m] show ?thesis by blast
qed

theorem detection_iff_at_or_above_cutoff_witness:
  "[-70, -66.5, -50, -70, -70 :: real] \<noteq> [] \<and>
   length [100, 110, 120, 130, 140 :: real] = length [-70, -66.5, -50, -70, -70 :: real] \<and>
   median [-70, -66.5, -50, -70, -70] = Inr (-70) \<and>
   detect_peaks default_config [100, 110, 120, 130, 140] [-70, -66.5, -50, -70, -70] =
     Inr [(110, -66.5), (120, -50)]"
proof -
  have h1: "[-70, -66.5, -50, -70, -70 :: real] \<noteq> []" by simp
  have h2: "length [100, 110, 120, 130, 140 :: real] = length [-70, -66.5, -50, -70, -70 :: real]" by simp
  have m: "median [-70, -66.5, -50, -70, -70] = Inr (-70)" by code_simp
  from detection_iff_at_or_above_cutoff [OF h1 h2, of default_config]
  obtain m' hits where
    "median [-70, -66.5, -50, -70, -70] = Inr m'"
    "detect_peaks default_config [100, 110, 120, 130, 140] [-70, -66.5, -50, -70, -70] = Inr hits"
    "hits = map (\<lambda>i. ([100, 110, 120, 130, 140 :: real] ! i, [-70, -66.5, -50, -70, -70 :: real] ! i))
              (filter (\<lambda>i. m' + THRESHOLD_ABOVE_MEDIAN_DB default_config \<le> [-70, -66.5, -50, -70, -70] ! i)
                 [0..<length [-70, -66.5, -50, -70, -70 :: real]])"
    by blast
  with m have "detect_peaks default_config [100, 110, 120, 130, 140] [-70, -66.5, -50, -70, -70] =
     Inr (map (\<lambda>i. ([100, 110, 120, 130, 140 :: real] ! i, [-70, -66.5, -50, -70, -70 :: real] ! i))
              (filter (\<lambda>i. -70 + THRESHOLD_ABOVE_MEDIAN_DB default_config \<le> [-70, -66.5, -50, -70, -70] ! i)
                 [0..<length [-70, -66.5, -50, -70, -70 :: real]]))"
    by simp
  also have "map (\<lambda>i. ([100, 110, 120, 130, 140 :: real] ! i, [-70, -66.5, -50, -70, -70 :: real] ! i))
              (filter (\<lambda>i. -70 + THRESHOLD_ABOVE_MEDIAN_DB default_config \<le> [-70, -66.5, -50, -70, -70] ! i)
                 [0..<length [-70, -66.5, -50, -70, -70 :: real]]) = [(110, -66.5), (120, -50)]"
    by code_simp
  finally show ?thesis using h1 h2 m by blast
qed

text \<open>
  C2. The end-to-end scenario of the specification: the line parses to the four
  frequencies and powers, the median is -69.75, the cutoff with the margin 3.5 is
  -66.25, and the only detection is the sample at position 2, at 144,050,000 Hz with
  -50 dB.
\<close>

theorem end_to_end_scenario:
  "scan_band py_float
     (Completed ''2024/01/01,00:00:00,144000000,148000000,25000,160,-70.0,-71.0,-50.0,-69.5'') =
     Inr ([144000000, 144025000, 144050000, 144075000], [-70.0, -71.0, -50.0, -69.5]) \<and>
   median [-70.0, -71.0, -50.0, -69.5] = Inr (-69.75) \<and>
   THRESHOLD_ABOVE_MEDIAN_DB default_config = 3.5 \<and>
   -69.75 + THRESHOLD_ABOVE_MEDIAN_DB default_config = -66.25 \<and>
   detect_peaks default_config
     [144000000, 144025000, 144050000, 144075000] [-70.0, -71.0, -50.0, -69.5] =
     Inr [(144050000, -50.0)] \<and>
   [144000000, 144025000, 144050000, 144075000 :: real] ! 2 = 144050000"
  by code_simp


subsection \<open>Spoken alerts\<close>



text \<open>
  C6, as the code has it. \<^verbatim>\<open>last_tts_time\<close> is set to the clock value exactly when
  the attempt passes the enable flag and the cooldown check, which is exactly when the
  attempt produces output, and before \<^verbatim>\<open>espeak\<close> is started; \<^verbatim>\<open>espeak\<close> is started
  exactly when, in addition, it is found.
\<close>

theorem last_tts_time_set_on_dispatch:
  "snd (speak cfg now espeak_found message st) =
     (if ENABLE_TTS_ALERTS cfg \<and> TTS_COOLDOWN_SEC cfg \<le> now - last_tts_time st
      then st\<lparr>last_tts_time := now\<rparr> else st) \<and>
   (fst (speak cfg now espeak_found message st) \<noteq> []) =
     (ENABLE_TTS_ALERTS cfg \<and> TTS_COOLDOWN_SEC cfg \<le> now - last_tts_time st) \<and>
   (\<exists>args. Popen args \<in> set (fst (speak cfg now espeak_found message st))) =
     (ENABLE_TTS_ALERTS cfg \<and> TTS_COOLDOWN_SEC cfg \<le> now - last_tts_time st \<and> espeak_found)"
  by (auto simp: speak_def)

theorem last_tts_time_set_on_dispatch_witness:
  "snd (speak default_config 1700000000 True ''hi'' initial_state) = \<lparr>last_tts_time = 1700000000\<rparr> \<and>
   fst (speak default_config 1700000000 True ''hi'' initial_state) \<noteq> [] \<and>
   (\<exists>args. Popen args \<in> set (fst (speak default_config 1700000000 True ''hi'' initial_state))) \<and>
   snd (speak default_config 3 True ''hi'' initial_state) = initial_state \<and>
   fst (speak default_config 3 True ''hi'' initial_state) = []"
  using last_tts_time_set_on_dispatch [of default_config 1700000000 True "''hi''" initial_state]
    last_tts_time_set_on_dispatch [of default_config 3 True "''hi''" initial_state]
  by (simp add: default_config_def initial_state_def)

text \<open>
  An attempt that fails because \<^verbatim>\<open>espeak\<close> is not found speaks nothing and still
  moves \<^verbatim>\<open>last_tts_time\<close>.
\<close>

theorem failed_attempt_updates_last_tts_time:
  "fst (speak default_config 1700000000 False ''hi'' initial_state) =
     [Print ''[TTS] hi'', Print ''[!] espeak not found. Install with: sudo apt install espeak''] \<and>
   last_tts_time initial_state = 0 \<and>
   last_tts_time (snd (speak default_config 1700000000 False ''hi'' initial_state)) = 1700000000"
  by (simp add: speak_def default_config_def initial_state_def)

end
